theory Spec2Isabelle
  imports Complex_Main
begin

section \<open>Amounts and the currency's rounding service\<close>

text \<open>
  The wizard computes with Python floats (binary64) that hold monetary amounts. The
  model computes with exact rationals: every sum, difference, product, comparison,
  minimum and maximum of the source is the same operation on \<open>rat\<close>, and the two calls
  into the currency's rounding service are the functions below. A float operation whose
  exact result is a float returns it, so the model computes the code's values wherever
  the amounts are whole numbers, as in every run evaluated below. Where a float
  operation has to round its result, the code's value and the model's differ by that
  rounding error; the statements of this theory are about the exact amounts.
\<close>

type_synonym amount = rat

record currency =
  currency_id :: nat
  rounding :: rat

text \<open>
  Modelled from the spec: the rounding service \<open>round(amount, precision)\<close> and
  \<open>is_zero(amount, precision)\<close> of section 6 (the framework's \<open>float_round\<close>
  and \<open>float_is_zero\<close>, which are not code of this repository). Rounding is the
  standard half-up rule on the magnitude: the nearest multiple of the precision, a tie
  going away from zero. An amount is zero when it rounds to less than one unit of the
  precision.
\<close>

definition float_round :: "amount \<Rightarrow> rat \<Rightarrow> amount" where
  "float_round v precision_rounding =
     (if precision_rounding = 0 \<or> v = 0 then 0
      else sgn (v / precision_rounding)
             * of_int \<lfloor>\<bar>v / precision_rounding\<bar> + 1 / 2\<rfloor> * precision_rounding)"

definition float_is_zero :: "amount \<Rightarrow> rat \<Rightarrow> bool" where
  "float_is_zero v precision_rounding =
     (\<bar>float_round v precision_rounding\<bar> < precision_rounding)"

definition currency_round :: "currency \<Rightarrow> amount \<Rightarrow> amount" where
  "currency_round cur v = float_round v (rounding cur)"


section \<open>The data model\<close>

text \<open>
  A Python string (\<open>str\<close>) is a sequence of Unicode characters: the list of their code
  points. \<open>ascii\<close> is the string of a literal. The texts that the code only passes on,
  the date and the fixed texts of the source, are kept as literals.
\<close>

type_synonym str = "int list"

definition ascii :: "string \<Rightarrow> str" where
  "ascii s = map of_char s"

text \<open>A Python value that is either \<open>False\<close> or a string (a \<open>Char\<close> field).\<close>

type_synonym char_field = "str option"

record account_move =
  am_id :: nat
  am_name :: char_field

record move_line =
  ml_id :: nat
  move_id :: account_move
  name :: char_field
  amount_residual :: amount
  account_id :: nat
  ml_company_currency_id :: currency

text \<open>
  A line of the wizard (\<open>account.invoice.clearing.lines.wizard\<close>): a clearing
  candidate and the amount requested from it. Its \<open>amount_residual\<close> and
  \<open>company_currency_id\<close> are related fields read through \<open>move_line_id\<close>.
\<close>

record clearing_line =
  sequence :: int
  move_line_id :: move_line
  amount_to_clear :: amount

definition line_amount_residual :: "clearing_line \<Rightarrow> amount" where
  "line_amount_residual l = amount_residual (move_line_id l)"

definition line_company_currency_id :: "clearing_line \<Rightarrow> currency" where
  "line_company_currency_id l = ml_company_currency_id (move_line_id l)"

record wizard =
  move_name :: char_field
  move_line_prefix :: char_field
  move_line_ids :: "move_line list"
  company_currency_id :: currency
  commercial_partner_id :: nat
  line_ids :: "clearing_line list"
  date :: string
  journal_id :: nat
  preview :: bool

text \<open>The dictionaries the engine emits: one per journal item, one per journal entry.\<close>

record line_vals =
  lv_name :: str
  lv_debit :: amount
  lv_credit :: amount
  lv_account_id :: nat
  lv_partner_id :: nat
  lv_currency_id :: nat
  lv_move_line_id_to_reconcile :: nat

record move_vals =
  mv_currency_id :: nat
  mv_move_type :: string
  mv_journal_id :: nat
  mv_date :: string
  mv_ref :: char_field
  mv_line_ids :: "line_vals list"
  mv_related_to_move :: char_field

datatype error = ValidationError string

section \<open>Commit-time validation of the clearing lines\<close>

text \<open>
  \<open>_check_amount_to_clear\<close>: the constraint walks the records and raises at the first
  one whose requested amount is larger in magnitude than its residual.
\<close>

fun check_amount_to_clear :: "clearing_line list \<Rightarrow> error + unit" where
  "check_amount_to_clear [] = Inr ()"
| "check_amount_to_clear (record # records) =
     (if \<bar>amount_to_clear record\<bar> > \<bar>line_amount_residual record\<bar>
      then Inl (ValidationError ''Amount to clear cannot be greater than residual amount.'')
      else check_amount_to_clear records)"

section \<open>Labels of the emitted lines\<close>

text \<open>
  Python's \<open>str.strip\<close> and \<open>str.join\<close>. \<open>strip\<close> without an argument removes the
  leading and the trailing characters that \<open>str.isspace\<close> accepts, the whitespace of
  Unicode: U+0009 to U+000D, U+001C to U+0020, U+0085, U+00A0, U+1680, U+2000 to U+200A,
  U+2028, U+2029, U+202F, U+205F and U+3000.
\<close>

definition isspace :: "int \<Rightarrow> bool" where
  "isspace c = (0x09 \<le> c \<and> c \<le> 0x0D \<or> 0x1C \<le> c \<and> c \<le> 0x20 \<or> c = 0x85 \<or> c = 0xA0
                \<or> c = 0x1680 \<or> 0x2000 \<le> c \<and> c \<le> 0x200A \<or> c = 0x2028 \<or> c = 0x2029
                \<or> c = 0x202F \<or> c = 0x205F \<or> c = 0x3000)"

definition str_strip :: "str \<Rightarrow> str" where
  "str_strip s = rev (dropWhile isspace (rev (dropWhile isspace s)))"

fun str_join :: "str \<Rightarrow> str list \<Rightarrow> str" where
  "str_join sep [] = []"
| "str_join sep [x] = x"
| "str_join sep (x # y # zs) = x @ sep @ str_join sep (y # zs)"

text \<open>\<open>filter(lambda t: t, txts)\<close>: the parts that are neither \<open>False\<close> nor empty.\<close>

fun truthy :: "char_field list \<Rightarrow> str list" where
  "truthy [] = []"
| "truthy (None # ts) = truthy ts"
| "truthy (Some s # ts) = (if s = [] then truthy ts else s # truthy ts)"

text \<open>
  \<open>build_line_name\<close>, with the prefix the enclosing method chose. The slice assignment
  \<open>txts[1:] = [move_line.move_id.name]\<close> keeps the first element and replaces the rest.
\<close>

definition build_line_name :: "char_field \<Rightarrow> move_line \<Rightarrow> str" where
  "build_line_name prefix move_line =
     (let txts = [prefix, am_name (move_id move_line), name move_line];
          txts = (if am_name (move_id move_line) = name move_line
                  then take 1 txts @ [am_name (move_id move_line)] else txts)
      in str_join (ascii '' - '') (map str_strip (truthy txts)))"

section \<open>The clearing-amount planner\<close>

text \<open>\<open>_compute_amount_to_clear\<close>: the wizard's remaining amount to clear.\<close>

definition compute_amount_to_clear :: "wizard \<Rightarrow> amount" where
  "compute_amount_to_clear w =
     sum_list (map amount_residual (move_line_ids w))
       + sum_list (map amount_to_clear (line_ids w))"

text \<open>
  One pass of the loop body of \<open>action_fill_amount_to_clear\<close> on a line that has no
  amount yet: the line as written, and the new value of the local \<open>amount_to_clear\<close>.
  The line stores the amount the code assigns; the rounding that the framework applies
  when a \<open>Monetary\<close> field is assigned is not code of this repository, and is the
  identity on monetary amounts.
\<close>

definition fill_line :: "amount \<Rightarrow> clearing_line \<Rightarrow> clearing_line \<times> amount" where
  "fill_line amount line =
     (let cmp_fnc = (if line_amount_residual line < 0 then (\<le>) else (\<ge>))
      in if float_is_zero amount (rounding (line_company_currency_id line))
         then (line\<lparr>amount_to_clear := 0\<rparr>, amount)
         else if cmp_fnc amount (line_amount_residual line)
         then (line\<lparr>amount_to_clear := line_amount_residual line\<rparr>,
               amount - line_amount_residual line)
         else (line\<lparr>amount_to_clear := amount\<rparr>, 0))"

text \<open>
  The loop over \<open>self.line_ids.filtered(lambda l: not l.amount_to_clear)\<close>: the lines
  are visited in their order, a line that has an amount is left as it is. The result
  is the list of lines after the writes, and the final value of the local.
\<close>

fun fill_lines :: "amount \<Rightarrow> clearing_line list \<Rightarrow> clearing_line list \<times> amount" where
  "fill_lines amount [] = ([], amount)"
| "fill_lines amount (line # lines) =
     (if amount_to_clear line \<noteq> 0
      then (let (lines', amount') = fill_lines amount lines in (line # lines', amount'))
      else (let (line', amount1) = fill_line amount line;
                (lines', amount') = fill_lines amount1 lines
            in (line' # lines', amount')))"

definition action_fill_amount_to_clear :: "wizard \<Rightarrow> wizard" where
  "action_fill_amount_to_clear w =
     w\<lparr>line_ids := fst (fill_lines (- compute_amount_to_clear w) (line_ids w))\<rparr>"

section \<open>The allocation engine\<close>

definition fiz :: "currency \<Rightarrow> amount \<Rightarrow> bool" where
  "fiz cur amount = float_is_zero amount (rounding cur)"

definition get_debit_credit :: "currency \<Rightarrow> amount \<Rightarrow> amount \<times> amount" where
  "get_debit_credit cur amount =
     (if amount > 0 then (amount, 0)
      else (0, if fiz cur amount then 0 else - amount))"

definition get_amount_to_use :: "currency \<Rightarrow> amount \<Rightarrow> amount \<Rightarrow> amount" where
  "get_amount_to_use cur amount_to_fill avaiable_amount =
     (let amount = max amount_to_fill avaiable_amount;
          amount = (if amount_to_fill > 0 then min amount_to_fill avaiable_amount else amount)
      in currency_round cur amount)"

definition get_clear_sign_modifier :: "amount \<Rightarrow> amount \<Rightarrow> amount" where
  "get_clear_sign_modifier a b =
     (let different_sign = (a < 0 \<and> b > 0) \<or> (a > 0 \<and> b < 0)
      in if different_sign then - 1 else 1)"

text \<open>
  The availability ledger is an \<open>OrderedDict\<close> from clearing move lines to amounts: an
  association list in insertion order. Assigning to a key that is present replaces its
  value where it stands; a new key goes to the end. Two move lines are the same key
  when they are the same record.
\<close>

type_synonym availability = "(move_line \<times> amount) list"

fun od_setitem :: "availability \<Rightarrow> move_line \<Rightarrow> amount \<Rightarrow> availability" where
  "od_setitem [] k v = [(k, v)]"
| "od_setitem ((k', v') # d) k v =
     (if k' = k then (k', v) # d else (k', v') # od_setitem d k v)"

definition clear_lines_availability :: "wizard \<Rightarrow> availability" where
  "clear_lines_availability w =
     fold (\<lambda>cl d. od_setitem d (move_line_id cl) (amount_to_clear cl))
       (filter (\<lambda>l. amount_to_clear l \<noteq> 0) (line_ids w)) []"

text \<open>
  One transfer of the inner loop, lines 461 to 475 of the source: from the source line's
  remaining residual, its clearing balance and the candidate's availability to the used
  amount and the three updated values.
\<close>

definition clear_step :: "currency \<Rightarrow> amount \<Rightarrow> amount \<Rightarrow> amount
    \<Rightarrow> amount \<times> amount \<times> amount \<times> amount" where
  "clear_step cur ml_amount_residual cl_balance availability =
     (let clear_sign = get_clear_sign_modifier ml_amount_residual availability;
          used_amount = get_amount_to_use cur ml_amount_residual (clear_sign * availability)
      in (used_amount,
          ml_amount_residual - used_amount,
          cl_balance + clear_sign * used_amount,
          availability + used_amount))"

text \<open>
  The inner loop over the ledger for one source line. It returns the remaining
  residual, the clearing balance, the transfers made (the candidate and the used
  amount, in order) and the ledger after the loop. The loop stops at the first
  candidate it reaches with the residual zero; it passes over an exhausted candidate.
\<close>

fun clear_loop :: "currency \<Rightarrow> amount \<Rightarrow> amount \<Rightarrow> availability
    \<Rightarrow> amount \<times> amount \<times> (move_line \<times> amount) list \<times> availability" where
  "clear_loop cur ml_amount_residual cl_balance [] =
     (ml_amount_residual, cl_balance, [], [])"
| "clear_loop cur ml_amount_residual cl_balance ((cl_move_line, avail) # rest) =
     (if fiz cur ml_amount_residual
      then (ml_amount_residual, cl_balance, [], (cl_move_line, avail) # rest)
      else if fiz cur avail
      then (let (r, b, ts, rest') = clear_loop cur ml_amount_residual cl_balance rest
            in (r, b, ts, (cl_move_line, avail) # rest'))
      else (let (used_amount, r1, b1, avail1) =
                   clear_step cur ml_amount_residual cl_balance avail;
                (r, b, ts, rest') = clear_loop cur r1 b1 rest
            in (r, b, (cl_move_line, used_amount) # ts, (cl_move_line, avail1) # rest')))"

text \<open>The dictionary of a clearing line's transfer, and the one of the source line.\<close>

definition clearing_move_line_vals :: "wizard \<Rightarrow> char_field \<Rightarrow> move_line \<times> amount \<Rightarrow> line_vals" where
  "clearing_move_line_vals w prefix t =
     (let (cl_debit, cl_credit) = get_debit_credit (company_currency_id w) (snd t)
      in \<lparr>lv_name = build_line_name prefix (fst t),
          lv_debit = cl_debit,
          lv_credit = cl_credit,
          lv_account_id = account_id (fst t),
          lv_partner_id = commercial_partner_id w,
          lv_currency_id = currency_id (company_currency_id w),
          lv_move_line_id_to_reconcile = ml_id (fst t)\<rparr>)"

definition source_move_line_vals :: "wizard \<Rightarrow> char_field \<Rightarrow> move_line \<Rightarrow> amount \<times> amount \<Rightarrow> line_vals" where
  "source_move_line_vals w prefix move_line dc =
     \<lparr>lv_name = build_line_name prefix move_line,
      lv_debit = fst dc,
      lv_credit = snd dc,
      lv_account_id = account_id move_line,
      lv_partner_id = commercial_partner_id w,
      lv_currency_id = currency_id (company_currency_id w),
      lv_move_line_id_to_reconcile = ml_id move_line\<rparr>"

text \<open>
  The body of the loop over the source lines of one document: the lines this source
  line adds to the entry, and the ledger it leaves. \<open>continue\<close> adds nothing.
\<close>

definition clear_move_line :: "wizard \<Rightarrow> char_field \<Rightarrow> availability \<Rightarrow> move_line
    \<Rightarrow> line_vals list \<times> availability" where
  "clear_move_line w prefix availability move_line =
     (let cur = company_currency_id w;
          (r, cl_balance, related, availability') =
             clear_loop cur (amount_residual move_line) 0 availability;
          (ml_debit, ml_credit) = get_debit_credit cur cl_balance
      in (if fiz cur ml_debit \<and> fiz cur ml_credit then []
          else source_move_line_vals w prefix move_line (ml_debit, ml_credit)
                 # map (clearing_move_line_vals w prefix) related,
          availability'))"

fun clear_move_lines :: "wizard \<Rightarrow> char_field \<Rightarrow> availability \<Rightarrow> move_line list
    \<Rightarrow> line_vals list \<times> availability" where
  "clear_move_lines w prefix availability [] = ([], availability)"
| "clear_move_lines w prefix availability (move_line # move_lines) =
     (let (vals, availability1) = clear_move_line w prefix availability move_line;
          (rest, availability2) = clear_move_lines w prefix availability1 move_lines
      in (vals @ rest, availability2))"

text \<open>\<open>itertools.groupby\<close>: the runs of consecutive elements with the same key.\<close>

fun groupby :: "('a \<Rightarrow> 'k) \<Rightarrow> 'a list \<Rightarrow> ('k \<times> 'a list) list" where
  "groupby key [] = []"
| "groupby key (x # xs) =
     (case groupby key xs of
        [] \<Rightarrow> [(key x, [x])]
      | (k, g) # gs \<Rightarrow> if key x = k then (k, x # g) # gs else (key x, [x]) # (k, g) # gs)"

text \<open>The loop over the documents: an entry for every document that got lines.\<close>

fun clear_moves :: "wizard \<Rightarrow> char_field \<Rightarrow> char_field \<Rightarrow> availability
    \<Rightarrow> (account_move \<times> move_line list) list \<Rightarrow> move_vals list" where
  "clear_moves w ref prefix availability [] = []"
| "clear_moves w ref prefix availability ((move, move_lines) # groups) =
     (let (vals, availability1) = clear_move_lines w prefix availability move_lines;
          rest = clear_moves w ref prefix availability1 groups
      in if vals = [] then rest
         else \<lparr>mv_currency_id = currency_id (company_currency_id w),
               mv_move_type = ''entry'',
               mv_journal_id = journal_id w,
               mv_date = date w,
               mv_ref = ref,
               mv_line_ids = vals,
               mv_related_to_move = am_name move\<rparr> # rest)"

definition get_move_dict_vals :: "wizard \<Rightarrow> move_vals list" where
  "get_move_dict_vals w =
     (let (ref, prefix) =
            (if preview w then (Some (ascii ''<Move Name>''), Some (ascii ''<Move Line Prefix>''))
             else (move_name w, move_line_prefix w))
      in clear_moves w ref prefix (clear_lines_availability w)
           (groupby move_id (move_line_ids w)))"

section \<open>Notions the statements use\<close>

text \<open>A journal entry is balanced when its debits and its credits have the same sum.\<close>

definition balanced :: "move_vals \<Rightarrow> bool" where
  "balanced m =
     (sum_list (map lv_debit (mv_line_ids m)) = sum_list (map lv_credit (mv_line_ids m)))"

text \<open>The sum of the used amounts that a list of transfers takes from one candidate.\<close>

definition used_against :: "move_line \<Rightarrow> (move_line \<times> amount) list \<Rightarrow> amount" where
  "used_against k ts = sum_list (map snd (filter (\<lambda>t. fst t = k) ts))"

text \<open>
  The allocations of a run: the inner loop of the engine run over the source lines in
  their order, the ledger handed from each line to the next, keeping for every source
  line its clearing balance and its transfers. The engine's loops make the same calls
  of \<open>clear_loop\<close> in the same order (lemma \<open>emitted_lines_allocations\<close> below), and
  build the lines of a source line from its allocation as \<open>allocation_vals\<close> does.
\<close>

type_synonym allocation = "move_line \<times> amount \<times> (move_line \<times> amount) list"

fun allocate :: "currency \<Rightarrow> availability \<Rightarrow> move_line list
    \<Rightarrow> allocation list \<times> availability" where
  "allocate cur availability [] = ([], availability)"
| "allocate cur availability (move_line # move_lines) =
     (let (r, cl_balance, related, availability1) =
            clear_loop cur (amount_residual move_line) 0 availability;
          (rest, availability2) = allocate cur availability1 move_lines
      in ((move_line, cl_balance, related) # rest, availability2))"

definition allocations :: "wizard \<Rightarrow> allocation list" where
  "allocations w =
     fst (allocate (company_currency_id w) (clear_lines_availability w) (move_line_ids w))"

definition transfers_of :: "allocation list \<Rightarrow> (move_line \<times> amount) list" where
  "transfers_of allocs = concat (map (\<lambda>a. snd (snd a)) allocs)"

definition allocation_vals :: "wizard \<Rightarrow> char_field \<Rightarrow> allocation \<Rightarrow> line_vals list" where
  "allocation_vals w prefix a =
     (let cur = company_currency_id w;
          (ml_debit, ml_credit) = get_debit_credit cur (fst (snd a))
      in if fiz cur ml_debit \<and> fiz cur ml_credit then []
         else source_move_line_vals w prefix (fst a) (ml_debit, ml_credit)
                # map (clearing_move_line_vals w prefix) (snd (snd a)))"

text \<open>
  The planner's local amount moves towards zero and never past it: \<open>towards_zero t t'\<close>
  says that \<open>t'\<close> lies between zero and \<open>t\<close>.
\<close>

definition towards_zero :: "amount \<Rightarrow> amount \<Rightarrow> bool" where
  "towards_zero t t' = (0 \<le> t' \<and> t' \<le> t \<or> t \<le> t' \<and> t' \<le> 0)"

section \<open>The specification's wording of two operations\<close>



text \<open>
  The label rule as the specification words it, to be compared with
  \<open>build_line_name\<close>: every part is stripped first, the parts that are then empty are
  left out, and a description equal to the document reference is dropped.
\<close>

definition text_of :: "char_field \<Rightarrow> str" where
  "text_of t = (case t of None \<Rightarrow> [] | Some s \<Rightarrow> s)"

definition build_line_name_spec :: "char_field \<Rightarrow> move_line \<Rightarrow> str" where
  "build_line_name_spec prefix move_line =
     (let document_reference = am_name (move_id move_line);
          line_description = name move_line;
          parts = (if line_description = document_reference
                   then [prefix, document_reference]
                   else [prefix, document_reference, line_description])
      in str_join (ascii '' - '') (filter (\<lambda>s. s \<noteq> []) (map (\<lambda>t. str_strip (text_of t)) parts)))"

text \<open>A part that is not empty and consists of whitespace only.\<close>

definition whitespace_only :: "char_field \<Rightarrow> bool" where
  "whitespace_only t = (case t of None \<Rightarrow> False | Some s \<Rightarrow> s \<noteq> [] \<and> str_strip s = [])"

section \<open>Example inputs\<close>

definition eur :: currency where
  "eur = \<lparr>currency_id = 1, rounding = 1 / 100\<rparr>"

definition example_move :: "nat \<Rightarrow> string \<Rightarrow> account_move" where
  "example_move i ref = \<lparr>am_id = i, am_name = Some (ascii ref)\<rparr>"

definition example_line :: "nat \<Rightarrow> account_move \<Rightarrow> string \<Rightarrow> amount \<Rightarrow> move_line" where
  "example_line i move label residual =
     \<lparr>ml_id = i, move_id = move, name = Some (ascii label), amount_residual = residual,
      account_id = 400, ml_company_currency_id = eur\<rparr>"

definition example_candidate :: "nat \<Rightarrow> amount \<Rightarrow> amount \<Rightarrow> clearing_line" where
  "example_candidate i residual requested =
     \<lparr>sequence = 10,
      move_line_id = example_line i (example_move i ''INV/9'') ''receivable'' residual,
      amount_to_clear = requested\<rparr>"

definition example_wizard :: "move_line list \<Rightarrow> clearing_line list \<Rightarrow> wizard" where
  "example_wizard source_lines candidates =
     \<lparr>move_name = Some (ascii ''Clearing operation''),
      move_line_prefix = Some (ascii ''Clearing operation''),
      move_line_ids = source_lines,
      company_currency_id = eur,
      commercial_partner_id = 7,
      line_ids = candidates,
      date = ''2023-06-30'',
      journal_id = 3,
      preview = False\<rparr>"

definition bill_1 :: account_move where
  "bill_1 = example_move 1 ''BILL/1''"

definition bill_2 :: account_move where
  "bill_2 = example_move 2 ''BILL/2''"


text \<open>
  Two bills with three payable lines, and two clearing lines of opposite signs: the
  first source line draws 30 on each, with opposite clearing signs, and nets to zero.
\<close>

definition netted_out :: wizard where
  "netted_out =
     example_wizard
       [example_line 1 bill_1 ''first'' (- 100), example_line 2 bill_1 ''second'' (- 50),
        example_line 3 bill_2 ''only'' (- 20)]
       [example_candidate 10 (- 30) (- 30), example_candidate 11 30 30]"

text \<open>
  A payable line of 100 to clear and clearing lines that have no amount yet: with
  residuals of 50, 80 and 40, and with residuals of 50 and \<open>- 50\<close>.
\<close>

definition unassigned :: wizard where
  "unassigned =
     example_wizard [example_line 1 bill_1 ''payable'' (- 100)]
       [example_candidate 10 50 0, example_candidate 11 80 0, example_candidate 12 40 0]"


text \<open>
  Three runs in which more is requested from the second candidate than the source lines
  need, as they stand before the planner is called and fills the first candidate: a
  payable line of 60; two payable lines of 100; payable lines of 80 and 30 of one bill
  and of 20 of another.
\<close>

definition over_requested :: wizard where
  "over_requested =
     example_wizard [example_line 1 bill_1 ''payable'' (- 60)]
       [example_candidate 10 50 0, example_candidate 11 150 100]"

definition over_requested_two_lines :: wizard where
  "over_requested_two_lines =
     example_wizard
       [example_line 1 bill_1 ''first'' (- 100), example_line 2 bill_1 ''second'' (- 100)]
       [example_candidate 10 50 0, example_candidate 11 300 240]"

definition over_requested_netting :: wizard where
  "over_requested_netting =
     example_wizard
       [example_line 1 bill_1 ''first'' (- 80), example_line 2 bill_1 ''second'' (- 30),
        example_line 3 bill_2 ''only'' (- 20)]
       [example_candidate 10 50 0, example_candidate 11 300 170]"

section \<open>Lemmas\<close>

subsection \<open>Rounding and monetary amounts\<close>



lemma float_is_zero_iff:
  assumes "0 < r"
  shows "float_is_zero v r = (\<bar>v\<bar> < r / 2)"
proof (cases "v = 0")
  case True
  then show ?thesis using assms by (simp add: float_is_zero_def float_round_def)
next
  case False
  have n0: "0 \<le> \<lfloor>\<bar>v / r\<bar> + 1 / 2\<rfloor>" by simp
  have "v / r \<noteq> 0" using assms False by simp
  then have "\<bar>sgn (v / r)\<bar> = 1" by (simp only: abs_sgn_eq if_False)
  then have eq: "\<bar>float_round v r\<bar> = of_int \<lfloor>\<bar>v / r\<bar> + 1 / 2\<rfloor> * r"
    using assms False n0 by (simp add: float_round_def abs_mult) 
  have "(of_int \<lfloor>\<bar>v / r\<bar> + 1 / 2\<rfloor> * r < r) = (of_int \<lfloor>\<bar>v / r\<bar> + 1 / 2\<rfloor> < (1::rat))"
    using assms by simp
  also have "\<dots> = (\<lfloor>\<bar>v / r\<bar> + 1 / 2\<rfloor> < 1)" by linarith
  also have "\<dots> = (\<bar>v / r\<bar> + 1 / 2 < 1)" by (simp add: floor_less_iff)
  also have "\<dots> = (\<bar>v\<bar> / r < 1 / 2)" using assms by (simp only: abs_divide abs_of_pos) linarith
  also have "\<dots> = (\<bar>v\<bar> < r / 2)" using assms by (simp add: pos_divide_less_eq)
  finally show ?thesis by (simp add: float_is_zero_def eq)
qed




lemma towards_zero_trans: "towards_zero a b \<Longrightarrow> towards_zero b c \<Longrightarrow> towards_zero a c"
  by (auto simp: towards_zero_def)

subsection \<open>The inner loop\<close>






subsection \<open>A transfer on opposite polarities\<close>


subsection \<open>The ledger\<close>











subsection \<open>The loops over source lines and documents\<close>

text \<open>
  The lines of a source line and of a list of source lines, and the grouping of the
  source lines.
\<close>

lemma clear_move_line_cases:
  assumes "clear_loop (company_currency_id w) (amount_residual move_line) 0 availability
             = (r, cl_balance, related, availability')"
    and "get_debit_credit (company_currency_id w) cl_balance = (ml_debit, ml_credit)"
  shows "clear_move_line w prefix availability move_line =
     (if fiz (company_currency_id w) ml_debit \<and> fiz (company_currency_id w) ml_credit then []
      else source_move_line_vals w prefix move_line (ml_debit, ml_credit)
             # map (clearing_move_line_vals w prefix) related,
      availability')"
  using assms by (simp add: clear_move_line_def Let_def)

lemma clear_move_lines_append:
  "clear_move_lines w prefix av (xs @ ys) =
     (fst (clear_move_lines w prefix av xs)
        @ fst (clear_move_lines w prefix (snd (clear_move_lines w prefix av xs)) ys),
      snd (clear_move_lines w prefix (snd (clear_move_lines w prefix av xs)) ys))"
  by (induction xs arbitrary: av) (auto split: prod.splits)

lemma groupby_concat: "concat (map snd (groupby key xs)) = xs"
  by (induction xs) (auto split: list.splits)

subsection \<open>The engine and the allocations\<close>

text \<open>The engine emits the lines of the allocations, document by document.\<close>

lemma clear_move_line_allocation:
  "clear_loop (company_currency_id w) (amount_residual ml) 0 av = (r, b, ts, av') \<Longrightarrow>
     clear_move_line w prefix av ml = (allocation_vals w prefix (ml, b, ts), av')"
  by (simp add: clear_move_line_def allocation_vals_def Let_def split: prod.splits)

lemma clear_move_lines_allocate:
  "clear_move_lines w prefix av mls =
     (concat (map (allocation_vals w prefix) (fst (allocate (company_currency_id w) av mls))),
      snd (allocate (company_currency_id w) av mls))"
proof (induction mls arbitrary: av)
  case Nil
  then show ?case by simp
next
  case (Cons ml mls)
  obtain r b ts av1 where loop:
    "clear_loop (company_currency_id w) (amount_residual ml) 0 av = (r, b, ts, av1)"
    by (cases "clear_loop (company_currency_id w) (amount_residual ml) 0 av")
  show ?case
    using loop clear_move_line_allocation [OF loop, of prefix] Cons.IH [of av1]
    by (simp split: prod.splits)
qed

lemma allocate_append:
  "allocate cur av (xs @ ys) =
     (fst (allocate cur av xs) @ fst (allocate cur (snd (allocate cur av xs)) ys),
      snd (allocate cur (snd (allocate cur av xs)) ys))"
  by (induction xs arbitrary: av) (auto split: prod.splits)

lemma clear_moves_lines:
  "concat (map mv_line_ids (clear_moves w ref prefix av groups)) =
     concat (map (allocation_vals w prefix)
       (fst (allocate (company_currency_id w) av (concat (map snd groups)))))"
proof (induction groups arbitrary: av)
  case Nil
  then show ?case by simp
next
  case (Cons g groups)
  obtain move mls where g: "g = (move, mls)" by (cases g)
  show ?case
    using Cons.IH [of "snd (allocate (company_currency_id w) av mls)"]
    by (simp add: g clear_move_lines_allocate allocate_append Let_def)
qed

lemma emitted_lines_allocations:
  "concat (map mv_line_ids (get_move_dict_vals w)) =
     concat (map (allocation_vals w
        (if preview w then Some (ascii ''<Move Line Prefix>'') else move_line_prefix w))
       (allocations w))"
  by (simp add: get_move_dict_vals_def allocations_def clear_moves_lines groupby_concat)







subsection \<open>The planner\<close>

text \<open>The local amount moves towards zero, it is the first amount less what the pass assigned, and a second pass over the result changes nothing.\<close>

lemma related_fields_update [simp]:
  "line_amount_residual (l\<lparr>amount_to_clear := x\<rparr>) = line_amount_residual l"
  "line_company_currency_id (l\<lparr>amount_to_clear := x\<rparr>) = line_company_currency_id l"
  by (simp_all add: line_amount_residual_def line_company_currency_id_def)

lemma fill_line_cases [consumes 1, case_names zero fits capped]:
  assumes "fill_line t l = (l', t1)"
  obtains "float_is_zero t (rounding (line_company_currency_id l))"
      "l' = l\<lparr>amount_to_clear := 0\<rparr>" "t1 = t"
  | "\<not> float_is_zero t (rounding (line_company_currency_id l))"
      "if line_amount_residual l < 0 then t \<le> line_amount_residual l
       else line_amount_residual l \<le> t"
      "l' = l\<lparr>amount_to_clear := line_amount_residual l\<rparr>" "t1 = t - line_amount_residual l"
  | "\<not> float_is_zero t (rounding (line_company_currency_id l))"
      "\<not> (if line_amount_residual l < 0 then t \<le> line_amount_residual l
       else line_amount_residual l \<le> t)"
      "l' = l\<lparr>amount_to_clear := t\<rparr>" "t1 = 0"
  using assms by (auto simp: fill_line_def Let_def split: if_splits)

lemma fill_line_towards_zero: "fill_line t l = (l', t1) \<Longrightarrow> towards_zero t t1"
  by (cases rule: fill_line_cases) (auto simp: towards_zero_def split: if_splits)

lemma fill_lines_towards_zero: "fill_lines t ls = (ls', t') \<Longrightarrow> towards_zero t t'"
proof (induction ls arbitrary: t ls' t')
  case Nil
  then show ?case by (auto simp: towards_zero_def)
next
  case (Cons l ls)
  show ?case
  proof (cases "amount_to_clear l \<noteq> 0")
    case True
    with Cons.prems show ?thesis by (auto split: prod.splits dest: Cons.IH)
  next
    case False
    obtain l1 t1 where one: "fill_line t l = (l1, t1)" by (cases "fill_line t l")
    obtain ls2 t2 where rest: "fill_lines t1 ls = (ls2, t2)" by (cases "fill_lines t1 ls")
    have "t' = t2" using Cons.prems False one rest by simp
    with fill_line_towards_zero [OF one] Cons.IH [OF rest] show ?thesis
      by (auto intro: towards_zero_trans)
  qed
qed

lemma fill_lines_remaining:
  "fill_lines t ls = (ls', t') \<Longrightarrow>
     t' = t - (sum_list (map amount_to_clear ls') - sum_list (map amount_to_clear ls))"
proof (induction ls arbitrary: t ls' t')
  case Nil
  then show ?case by auto
next
  case (Cons l ls)
  show ?case
  proof (cases "amount_to_clear l \<noteq> 0")
    case True
    obtain ls2 t2 where rest: "fill_lines t ls = (ls2, t2)" by (cases "fill_lines t ls")
    from Cons.IH [OF rest] Cons.prems True rest show ?thesis by auto
  next
    case False
    obtain l1 t1 where one: "fill_line t l = (l1, t1)" by (cases "fill_line t l")
    obtain ls2 t2 where rest: "fill_lines t1 ls = (ls2, t2)" by (cases "fill_lines t1 ls")
    have res: "ls' = l1 # ls2" "t' = t2" using Cons.prems False one rest by simp_all
    have "t1 = t - amount_to_clear l1"
      using one by (cases rule: fill_line_cases) auto
    with Cons.IH [OF rest] res False show ?thesis by simp
  qed
qed

lemma float_is_zero_towards_zero:
  assumes "float_is_zero t r" and "towards_zero t t'"
  shows "float_is_zero t' r"
proof -
  have "0 \<le> \<bar>float_round t r\<bar>" by simp
  with assms(1) have "0 < r" unfolding float_is_zero_def by linarith
  with assms show ?thesis by (auto simp: float_is_zero_iff towards_zero_def)
qed

lemma fill_line_again:
  assumes z: "amount_to_clear l = 0"
    and one: "fill_line t l = (l1, t1)" and z1: "amount_to_clear l1 = 0"
    and tz: "towards_zero t1 t'"
  shows "fill_line t' l1 = (l1, t')"
  using one
proof (cases rule: fill_line_cases)
  case zero
  then have "float_is_zero t' (rounding (line_company_currency_id l))"
    using float_is_zero_towards_zero [OF _ tz] by simp
  with zero show ?thesis by (simp add: fill_line_def)
next
  case fits
  then have res0: "line_amount_residual l = 0" using z1 by simp
  with fits have "0 \<le> t" "t1 = t" "l1 = l" using z by simp_all
  with tz have "0 \<le> t'" by (auto simp: towards_zero_def)
  then show ?thesis using res0 z \<open>l1 = l\<close> by (simp add: fill_line_def)
next
  case capped
  then have "t = 0" "t1 = 0" "l1 = l" using z z1 by simp_all
  moreover from this tz have "t' = 0" by (simp add: towards_zero_def)
  ultimately show ?thesis using one by simp
qed

lemma fill_lines_again:
  "fill_lines t ls = (ls', t') \<Longrightarrow> fill_lines t' ls' = (ls', t')"
proof (induction ls arbitrary: t ls' t')
  case Nil
  then show ?case by auto
next
  case (Cons l ls)
  show ?case
  proof (cases "amount_to_clear l \<noteq> 0")
    case True
    obtain ls2 t2 where rest: "fill_lines t ls = (ls2, t2)" by (cases "fill_lines t ls")
    from Cons.IH [OF rest] Cons.prems True rest show ?thesis by auto
  next
    case False
    obtain l1 t1 where one: "fill_line t l = (l1, t1)" by (cases "fill_line t l")
    obtain ls2 t2 where rest: "fill_lines t1 ls = (ls2, t2)" by (cases "fill_lines t1 ls")
    have res: "ls' = l1 # ls2" "t' = t2" using Cons.prems False one rest by simp_all
    have ih: "fill_lines t2 ls2 = (ls2, t2)" using Cons.IH [OF rest] by simp
    show ?thesis
    proof (cases "amount_to_clear l1 \<noteq> 0")
      case True
      with ih res show ?thesis by simp
    next
      case z1: False
      have "fill_line t2 l1 = (l1, t2)"
        using fill_line_again [OF _ one _ fill_lines_towards_zero [OF rest]] False z1
        by simp
      with ih res z1 show ?thesis by simp
    qed
  qed
qed

subsection \<open>Labels\<close>

text \<open>Where no part is whitespace only, stripping and dropping the empty parts commute.\<close>

lemma str_strip_Nil [simp]: "str_strip [] = []"
  by (simp add: str_strip_def)

lemma truthy_stripped:
  "list_all (\<lambda>t. \<not> whitespace_only t) ts \<Longrightarrow>
     map str_strip (truthy ts) = filter (\<lambda>s. s \<noteq> []) (map (\<lambda>t. str_strip (text_of t)) ts)"
  by (induction ts rule: truthy.induct) (auto simp: whitespace_only_def text_of_def)

text \<open>
  The label in terms of the parts, and its agreement with the specification's rule where
  no part is of whitespace only.
\<close>

lemma build_line_name_agrees:
  "build_line_name prefix move_line =
     str_join (ascii '' - '') (map str_strip (truthy
       (if name move_line = am_name (move_id move_line)
        then [prefix, am_name (move_id move_line)]
        else [prefix, am_name (move_id move_line), name move_line])))
   \<and> (\<not> whitespace_only prefix \<and> \<not> whitespace_only (am_name (move_id move_line))
        \<and> \<not> whitespace_only (name move_line)
      \<longrightarrow> build_line_name prefix move_line = build_line_name_spec prefix move_line)"
proof -
  have "\<not> whitespace_only prefix \<and> \<not> whitespace_only (am_name (move_id move_line))
        \<and> \<not> whitespace_only (name move_line)
      \<Longrightarrow> build_line_name prefix move_line = build_line_name_spec prefix move_line"
    using truthy_stripped [of "[prefix, am_name (move_id move_line), name move_line]"]
      truthy_stripped [of "[prefix, am_name (move_id move_line)]"]
    by (simp add: build_line_name_def build_line_name_spec_def Let_def del: truthy.simps)
  then show ?thesis by (auto simp: build_line_name_def Let_def)
qed

section \<open>The claims\<close>

subsection \<open>C1: every emitted entry is balanced\<close>

text \<open>
  C1. The claim: in every valid allocation run, where the source lines share one partner
  and one company and are on the opposite side to the clearing candidates, every journal
  entry that \<open>_get_move_dict_vals\<close> emits is balanced, its debits and its credits having
  the same sum. The code does not meet it on amounts that the wizard's own planner
  writes. In \<open>over_requested\<close> a payable line of 60 faces receivable lines of 50 and of
  150, and 100 is requested from the second. \<open>action_fill_amount_to_clear\<close> gives the
  first candidate the remaining \<open>- 40\<close>, an amount of the source line's sign;
  \<open>_check_amount_to_clear\<close> compares magnitudes and accepts it; the engine takes the side
  of a candidate from the sign of the amount requested from it, finds the clearing sign
  1 and adds the amount used from that candidate to the clearing balance. The entry has
  credits of 20, 40 and 20 and no debit.
\<close>

theorem planned_entry_unbalanced:
  "list_all (\<lambda>ml. amount_residual ml < 0) (move_line_ids over_requested)
   \<and> list_all (\<lambda>l. 0 < line_amount_residual l) (line_ids over_requested)
   \<and> compute_amount_to_clear over_requested = 40
   \<and> line_ids (action_fill_amount_to_clear over_requested)
       = [example_candidate 10 50 (- 40), example_candidate 11 150 100]
   \<and> check_amount_to_clear (line_ids (action_fill_amount_to_clear over_requested)) = Inr ()
   \<and> map (\<lambda>m. map (\<lambda>l. (lv_move_line_id_to_reconcile l, lv_debit l, lv_credit l))
              (mv_line_ids m))
        (get_move_dict_vals (action_fill_amount_to_clear over_requested))
       = [[(1, 0, 20), (10, 0, 40), (11, 0, 20)]]
   \<and> \<not> list_all balanced (get_move_dict_vals (action_fill_amount_to_clear over_requested))"
  by code_simp

subsection \<open>C2: one transfer of the inner loop\<close>




subsection \<open>C3: the lines of an entry\<close>




subsection \<open>C4: no line is consumed beyond its residual\<close>

text \<open>
  C4. The claim: in every allocation run in which the amount requested from each
  candidate is at most its residual in magnitude, the amounts used against a source
  line, and against a clearing candidate, add up to at most its residual in magnitude.
  The code does not meet it for a candidate that the planner filled with an amount of
  the source lines' sign. In \<open>over_requested_two_lines\<close> two payable lines of 100 face
  receivable lines of 50 and of 300, and 240 is requested from the second. The planner
  gives the first candidate \<open>- 40\<close>, within its residual of 50, and the validation
  passes. The engine adds every amount it uses to the availability: on this candidate
  the availability goes from \<open>- 40\<close> to \<open>- 80\<close> and to \<open>- 160\<close>, and the two source lines
  use 40 and 80 from it, 120 against a residual of 50.
\<close>

theorem planned_candidate_over_consumed:
  "line_ids (action_fill_amount_to_clear over_requested_two_lines)
       = [example_candidate 10 50 (- 40), example_candidate 11 300 240]
   \<and> list_all (\<lambda>l. \<bar>amount_to_clear l\<bar> \<le> \<bar>line_amount_residual l\<bar>)
        (line_ids (action_fill_amount_to_clear over_requested_two_lines))
   \<and> check_amount_to_clear (line_ids (action_fill_amount_to_clear over_requested_two_lines))
       = Inr ()
   \<and> map (\<lambda>a. map (\<lambda>t. (ml_id (fst t), snd t)) (snd (snd a)))
        (allocations (action_fill_amount_to_clear over_requested_two_lines))
       = [[(10, - 40), (11, - 60)], [(10, - 80), (11, - 20)]]
   \<and> used_against (move_line_id (example_candidate 10 50 0))
        (transfers_of (allocations (action_fill_amount_to_clear over_requested_two_lines)))
       = - 120
   \<and> amount_residual (move_line_id (example_candidate 10 50 0)) = 50
   \<and> \<bar>amount_residual (move_line_id (example_candidate 10 50 0))\<bar>
       < \<bar>used_against (move_line_id (example_candidate 10 50 0))
            (transfers_of
              (allocations (action_fill_amount_to_clear over_requested_two_lines)))\<bar>"
  by code_simp

subsection \<open>C5: the walk of the planner\<close>




subsection \<open>C6: the planner is idempotent\<close>

text \<open>
  C6. Calling \<open>action_fill_amount_to_clear\<close> a second time, on the wizard the first call
  left, changes nothing: the lines after two calls are the lines after one call, so no
  line that got an amount is overwritten. The target the second call starts from is the
  one the first call left unconsumed.
\<close>

theorem planner_idempotent:
  "action_fill_amount_to_clear (action_fill_amount_to_clear w)
     = action_fill_amount_to_clear w
   \<and> - compute_amount_to_clear (action_fill_amount_to_clear w)
       = snd (fill_lines (- compute_amount_to_clear w) (line_ids w))"
proof -
  obtain ls' t' where run: "fill_lines (- compute_amount_to_clear w) (line_ids w) = (ls', t')"
    by (cases "fill_lines (- compute_amount_to_clear w) (line_ids w)")
  have w': "action_fill_amount_to_clear w = w\<lparr>line_ids := ls'\<rparr>"
    using run by (simp add: action_fill_amount_to_clear_def)
  have left: "t' = - compute_amount_to_clear (w\<lparr>line_ids := ls'\<rparr>)"
    using fill_lines_remaining [OF run] by (simp add: compute_amount_to_clear_def)
  then have "fill_lines (- compute_amount_to_clear (w\<lparr>line_ids := ls'\<rparr>)) ls' = (ls', t')"
    using fill_lines_again [OF run] by simp
  then show ?thesis using w' left run by (simp add: action_fill_amount_to_clear_def)
qed

text \<open>
  The amounts of \<open>unassigned\<close> after one call and after two.
\<close>

theorem planner_idempotent_witness:
  "map amount_to_clear (line_ids (action_fill_amount_to_clear unassigned)) = [50, 50, 0]
   \<and> map amount_to_clear
        (line_ids (action_fill_amount_to_clear (action_fill_amount_to_clear unassigned)))
       = [50, 50, 0]
   \<and> compute_amount_to_clear (action_fill_amount_to_clear unassigned) = 0"
proof -
  have a: "map amount_to_clear (line_ids (action_fill_amount_to_clear unassigned))
      = [50, 50, 0]" by code_simp
  have b: "compute_amount_to_clear (action_fill_amount_to_clear unassigned) = 0"
    by code_simp
  from planner_idempotent [of unassigned] a b show ?thesis by simp
qed

subsection \<open>C7: a source line that nets to zero adds no line\<close>

text \<open>
  C7. When the debit and the credit derived from a source line's clearing balance are
  both zero within the rounding tolerance, the source line adds nothing to the entry:
  neither its own line nor the lines of the transfers made while processing it. The
  lines of the document are those of the source lines before it and of the source lines
  after it.
\<close>

theorem dropped_source_line_contributes_nothing:
  assumes "clear_move_lines w prefix av0 before = (vals_before, availability)"
    and "clear_loop (company_currency_id w) (amount_residual move_line) 0 availability
           = (r, cl_balance, related, availability')"
    and "get_debit_credit (company_currency_id w) cl_balance = (ml_debit, ml_credit)"
    and "fiz (company_currency_id w) ml_debit" and "fiz (company_currency_id w) ml_credit"
  shows "fst (clear_move_line w prefix availability move_line) = []
     \<and> fst (clear_move_lines w prefix av0 (before @ move_line # after))
         = vals_before @ fst (clear_move_lines w prefix availability' after)"
proof -
  have one: "clear_move_line w prefix availability move_line = ([], availability')"
    using clear_move_line_cases [OF assms(2,3)] assms(4,5) by simp
  then show ?thesis
    using assms(1) by (simp add: clear_move_lines_append split: prod.splits)
qed

text \<open>
  The first source line of \<open>netted_out\<close> makes two transfers and nets to zero: the
  lines of its document are the second source line's, on the move lines 2 and 10.
\<close>

theorem dropped_source_line_contributes_nothing_witness:
  "clear_move_lines netted_out (Some (ascii ''P'')) (clear_lines_availability netted_out) []
     = ([], clear_lines_availability netted_out)
   \<and> clear_loop (company_currency_id netted_out)
        (amount_residual (example_line 1 bill_1 ''first'' (- 100))) 0
        (clear_lines_availability netted_out)
       = (- 40, 0,
          [(move_line_id (example_candidate 10 (- 30) (- 30)), - 30),
           (move_line_id (example_candidate 11 30 30), - 30)],
          [(move_line_id (example_candidate 10 (- 30) (- 30)), - 60),
           (move_line_id (example_candidate 11 30 30), 0)])
   \<and> get_debit_credit (company_currency_id netted_out) 0 = (0, 0)
   \<and> fiz (company_currency_id netted_out) 0
   \<and> map lv_move_line_id_to_reconcile
        (fst (clear_move_lines netted_out (Some (ascii ''P'')) (clear_lines_availability netted_out)
           ([] @ example_line 1 bill_1 ''first'' (- 100)
               # [example_line 2 bill_1 ''second'' (- 50)])))
       = [2, 10]"
proof -
  have a: "clear_move_lines netted_out (Some (ascii ''P'')) (clear_lines_availability netted_out) []
     = ([], clear_lines_availability netted_out)" by simp
  have b: "clear_loop (company_currency_id netted_out)
        (amount_residual (example_line 1 bill_1 ''first'' (- 100))) 0
        (clear_lines_availability netted_out)
       = (- 40, 0,
          [(move_line_id (example_candidate 10 (- 30) (- 30)), - 30),
           (move_line_id (example_candidate 11 30 30), - 30)],
          [(move_line_id (example_candidate 10 (- 30) (- 30)), - 60),
           (move_line_id (example_candidate 11 30 30), 0)])" by code_simp
  have c: "get_debit_credit (company_currency_id netted_out) 0 = (0, 0)" by code_simp
  have d: "fiz (company_currency_id netted_out) 0" by code_simp
  have e: "map lv_move_line_id_to_reconcile
        (fst (clear_move_lines netted_out (Some (ascii ''P''))
           [(move_line_id (example_candidate 10 (- 30) (- 30)), - 60),
            (move_line_id (example_candidate 11 30 30), 0)]
           [example_line 2 bill_1 ''second'' (- 50)])) = [2, 10]" by code_simp
  from dropped_source_line_contributes_nothing [OF a b c d d,
      of "[example_line 2 bill_1 ''second'' (- 50)]"] a b c d e
  show ?thesis by simp
qed

subsection \<open>C8: the validation of the requested amounts\<close>

text \<open>
  C8. The commit-time validation fails, with the validation error on the amount that
  exceeds the residual, if and only if some candidate has
  \<open>|requested_amount| > |residual_amount|\<close>; when every candidate has
  \<open>|requested_amount| \<le> |residual_amount|\<close>, whatever the signs, it passes and raises
  nothing.
\<close>

theorem check_amount_to_clear_fails_iff:
  "(check_amount_to_clear records
      = Inl (ValidationError ''Amount to clear cannot be greater than residual amount.''))
     = (\<exists>record \<in> set records. \<bar>amount_to_clear record\<bar> > \<bar>line_amount_residual record\<bar>)
   \<and> (check_amount_to_clear records = Inr ())
     = (\<forall>record \<in> set records. \<bar>amount_to_clear record\<bar> \<le> \<bar>line_amount_residual record\<bar>)"
  by (induction records) auto

text \<open>
  Requested amounts within the residuals pass with any combination of signs; one cent
  more than the residual fails.
\<close>

theorem check_amount_to_clear_fails_iff_witness:
  "check_amount_to_clear
     [example_candidate 10 100 (- 100), example_candidate 11 (- 80) 30,
      example_candidate 12 (- 50) (- 50), example_candidate 13 20 0] = Inr ()
   \<and> check_amount_to_clear [example_candidate 10 100 100, example_candidate 11 80 (8001 / 100)]
       = Inl (ValidationError ''Amount to clear cannot be greater than residual amount.'')"
  using check_amount_to_clear_fails_iff
      [of "[example_candidate 10 100 (- 100), example_candidate 11 (- 80) 30,
            example_candidate 12 (- 50) (- 50), example_candidate 13 20 0]"]
    check_amount_to_clear_fails_iff
      [of "[example_candidate 10 100 100, example_candidate 11 80 (8001 / 100)]"]
  by (simp add: example_candidate_def example_line_def line_amount_residual_def)

subsection \<open>C9: the label of a line\<close>

text \<open>
  C9. The claim: \<open>build_line_name\<close> returns the non-empty parts of the prefix, the
  document reference and the line's description, each stripped of its surrounding
  whitespace, so that a part of whitespace only is dropped, joined by \<open>" - "\<close>; a
  description equal to the document reference is left out. The code filters the parts
  for emptiness before it strips them: a description of three blanks, or of a no-break
  space and an em space, passes the filter and is stripped to the empty string, and the
  label ends with a separator, where the rule of the claim gives the prefix and the
  reference only. On parts that are not of whitespace only the code follows the rule
  (lemma \<open>build_line_name_agrees\<close>): surrounding blanks are stripped, and a description
  equal to the reference appears once.
\<close>

theorem whitespace_only_part_kept:
  "build_line_name (Some (ascii ''Clearing operation'')) (example_line 1 bill_1 ''   '' (- 100))
     = ascii ''Clearing operation - BILL/1 - ''
   \<and> build_line_name_spec (Some (ascii ''Clearing operation''))
        (example_line 1 bill_1 ''   '' (- 100))
     = ascii ''Clearing operation - BILL/1''
   \<and> build_line_name (Some (ascii ''Clearing operation''))
        ((example_line 1 bill_1 ''   '' (- 100))\<lparr>name := Some [0xA0, 0x2003]\<rparr>)
     = ascii ''Clearing operation - BILL/1 - ''
   \<and> build_line_name (Some (ascii '' Clearing operation ''))
        (example_line 1 bill_1 ''BILL/1'' (- 100))
     = ascii ''Clearing operation - BILL/1''
   \<and> build_line_name None (example_line 2 bill_1 '' second line '' (- 100))
     = ascii ''BILL/1 - second line''"
  by code_simp

subsection \<open>C10: a dropped source line keeps what it consumed\<close>

text \<open>
  C10. The claim: when a source line is dropped because its clearing balance is zero
  within the tolerance, the ledger is not rolled back; every amount consumed for the
  dropped line stays deducted, and the later source lines of the run, those of later
  documents too, allocate from the reduced availability. The code does not roll the
  ledger back, but what it keeps for a candidate that the planner filled with an amount
  of the source lines' sign is not a deduction. In \<open>over_requested_netting\<close> payable
  lines of 80 and 30 of one bill and of 20 of another face receivable lines of 50 and
  of 300, and 170 is requested from the second; the planner gives the first candidate
  \<open>- 40\<close>. The first source line uses 40 from each candidate, with the clearing signs 1
  and \<open>- 1\<close>, nets to zero and is dropped. The second candidate's availability stays
  reduced, from 170 to 130; the first candidate's has grown, from \<open>- 40\<close> to \<open>- 80\<close>, and
  the two later source lines draw 30 and 20 from it, more than the 40 requested, in
  entries that have credits only.
\<close>

theorem dropped_line_grows_availability:
  "line_ids (action_fill_amount_to_clear over_requested_netting)
       = [example_candidate 10 50 (- 40), example_candidate 11 300 170]
   \<and> check_amount_to_clear (line_ids (action_fill_amount_to_clear over_requested_netting))
       = Inr ()
   \<and> map (\<lambda>p. (ml_id (fst p), snd p))
        (clear_lines_availability (action_fill_amount_to_clear over_requested_netting))
       = [(10, - 40), (11, 170)]
   \<and> fst (clear_move_line (action_fill_amount_to_clear over_requested_netting)
            (Some (ascii ''Clearing operation''))
            (clear_lines_availability (action_fill_amount_to_clear over_requested_netting))
            (example_line 1 bill_1 ''first'' (- 80)))
       = []
   \<and> map (\<lambda>p. (ml_id (fst p), snd p))
        (snd (clear_move_line (action_fill_amount_to_clear over_requested_netting)
               (Some (ascii ''Clearing operation''))
               (clear_lines_availability (action_fill_amount_to_clear over_requested_netting))
               (example_line 1 bill_1 ''first'' (- 80))))
       = [(10, - 80), (11, 130)]
   \<and> map (\<lambda>a. map (\<lambda>t. (ml_id (fst t), snd t)) (snd (snd a)))
        (allocations (action_fill_amount_to_clear over_requested_netting))
       = [[(10, - 40), (11, - 40)], [(10, - 30)], [(10, - 20)]]
   \<and> map (\<lambda>m. map (\<lambda>l. (lv_move_line_id_to_reconcile l, lv_debit l, lv_credit l))
              (mv_line_ids m))
        (get_move_dict_vals (action_fill_amount_to_clear over_requested_netting))
       = [[(2, 0, 30), (10, 0, 30)], [(3, 0, 20), (10, 0, 20)]]"
  by code_simp

end
